theory Spec2Isabelle
  imports Main "HOL-Library.Word" "HOL-Library.Char_ord" "HOL-Library.List_Lexorder"
begin

section \<open>GTaskScheduler: a shallow embedding of scheduler.go\<close>

text \<open>
  The program is a cron-driven command runner written in Go. Its state lives in three
  globals (\<^verbatim>\<open>logFile\<close>, \<^verbatim>\<open>db\<close>, \<^verbatim>\<open>mu\<close>) and in the cron instances it starts. The
  embedding makes that state a record that every function takes and returns. What the
  program gets from outside (the subprocess's result, the clock, the random UUID, the
  HTTP request, the cron expression parser of robfig/cron) is a parameter.

  Strings are byte lists, as Go's are. The SQLite store is modelled as the rows of its
  two tables; a statement either succeeds or fails with the error its SQL semantics
  prescribes (no row, a UNIQUE constraint). Faults of the storage engine, of the file
  system and of the HTTP connection are not modelled.
\<close>

subsection \<open>Formatting\<close>

definition NL :: string where
  "NL = [CHR 0x0A]"

definition digit_char :: "nat \<Rightarrow> char" where
  "digit_char d = ''0123456789'' ! d"

text \<open>\<^verbatim>\<open>%d\<close> of a non-negative integer.\<close>

fun decimal :: "nat \<Rightarrow> string" where
  "decimal n = (if n < 10 then [digit_char n] else decimal (n div 10) @ [digit_char (n mod 10)])"

declare decimal.simps [simp del]

definition fmt_d :: "int \<Rightarrow> string" where
  "fmt_d i = (if i < 0 then CHR ''-'' # decimal (nat (- i)) else decimal (nat i))"

subsection \<open>Wall-clock time and the layout \<^verbatim>\<open>02-01-2006 15:04:05\<close>\<close>

record time =
  year :: nat
  month :: nat
  day :: nat
  hour :: nat
  minute :: nat
  second :: nat

text \<open>\<^verbatim>\<open>t.Before(u)\<close>: the chronological order of two instants.\<close>

definition Before :: "time \<Rightarrow> time \<Rightarrow> bool" where
  "Before t u =
     (year t < year u \<or> (year t = year u \<and>
       (month t < month u \<or> (month t = month u \<and>
         (day t < day u \<or> (day t = day u \<and>
           (hour t < hour u \<or> (hour t = hour u \<and>
             (minute t < minute u \<or> (minute t = minute u \<and> second t < second u))))))))))"

definition pad2 :: "nat \<Rightarrow> string" where
  "pad2 n = (if n < 10 then CHR ''0'' # decimal n else decimal n)"

definition pad4 :: "nat \<Rightarrow> string" where
  "pad4 n = replicate (4 - length (decimal n)) (CHR ''0'') @ decimal n"

text \<open>\<^verbatim>\<open>t.Format("02-01-2006 15:04:05")\<close>: day, month, year, then the time of day.\<close>

definition Format :: "time \<Rightarrow> string" where
  "Format t = pad2 (day t) @ ''-'' @ pad2 (month t) @ ''-'' @ pad4 (year t) @ '' '' @
              pad2 (hour t) @ '':'' @ pad2 (minute t) @ '':'' @ pad2 (second t)"

subsection \<open>UUIDs\<close>

text \<open>
  \<^verbatim>\<open>uuid.New()\<close> yields sixteen random bytes; \<^verbatim>\<open>String()\<close> prints them in hexadecimal,
  grouped 4-2-2-2-6 and separated by dashes.
\<close>

type_synonym uuid = "8 word list"

definition hex_digit :: "nat \<Rightarrow> char" where
  "hex_digit n = ''0123456789abcdef'' ! n"

definition hex_byte :: "8 word \<Rightarrow> string" where
  "hex_byte b = [hex_digit (unat b div 16), hex_digit (unat b mod 16)]"

definition hex :: "8 word list \<Rightarrow> string" where
  "hex bs = concat (map hex_byte bs)"

definition uuid_String :: "uuid \<Rightarrow> string" where
  "uuid_String u = hex (take 4 u) @ ''-'' @ hex (take 2 (drop 4 u)) @ ''-'' @
                   hex (take 2 (drop 6 u)) @ ''-'' @ hex (take 2 (drop 8 u)) @ ''-'' @
                   hex (drop 10 u)"

subsection \<open>The subprocess\<close>

text \<open>
  What \<^verbatim>\<open>exec.Command("bash", "-c", command)\<close> can do: run to an exit status, die from a
  signal, or fail to start. \<^verbatim>\<open>CombinedOutput\<close> returns the captured bytes and an error
  that is nil exactly when the process ran and exited with status 0.
\<close>

datatype exec_result =
    Exited nat string
  | Signaled string string
  | StartFailed string

definition CombinedOutput :: "exec_result \<Rightarrow> string \<times> string option" where
  "CombinedOutput r =
     (case r of
        Exited code out \<Rightarrow> (out, if code = 0 then None else Some (''exit status '' @ decimal code))
      | Signaled sig out \<Rightarrow> (out, Some (''signal: '' @ sig))
      | StartFailed msg \<Rightarrow> ([], Some msg))"

subsection \<open>Data: JobStatus, the two tables, the process state\<close>

record JobStatus =
  UID :: string
  AutoIncrementalID :: int
  Command :: string
  Timestamp :: string
  Status :: string
  Output :: string

text \<open>A row of \<^verbatim>\<open>tasks (id, task_uid UNIQUE, command, timestamp, status, output)\<close>.\<close>

record task_row =
  task_id :: int
  task_uid :: string
  task_command :: string
  task_timestamp :: string
  task_status :: string
  task_output :: string

text \<open>
  A row of \<^verbatim>\<open>jobs (job_id, job_name UNIQUE, job_schedule, job_command, job_description,
  added_at, job_status DEFAULT 1, updated_at)\<close>.
\<close>

record job_row =
  job_id :: int
  job_name :: string
  job_schedule :: string
  job_command :: string
  job_description :: string
  added_at :: string
  job_status :: bool
  updated_at :: "string option"

text \<open>
  The database: the rows of both tables in rowid order, and for each table the largest
  rowid AUTOINCREMENT has handed out.
\<close>

record database =
  tasks :: "task_row list"
  tasks_seq :: int
  jobs :: "job_row list"
  jobs_seq :: int

datatype db_error = ErrNoRows | ErrConstraint string

fun db_error_text :: "db_error \<Rightarrow> string" where
  "db_error_text ErrNoRows = ''sql: no rows in result set''"
| "db_error_text (ErrConstraint c) = ''UNIQUE constraint failed: '' @ c"

text \<open>A cron instance: its entries (expression, command captured by the closure).\<close>

record cron =
  cron_entries :: "(string \<times> string) list"
  cron_running :: bool

text \<open>
  The process state: the two global handles (\<open>None\<close> is Go's nil), what was printed to
  the terminal, and the cron instances that were started.
\<close>

record world =
  logFile :: "string option"
  db :: "database option"
  stdout :: string
  schedulers :: "cron list"

subsection \<open>Status Recorder: logJobStatus and logJobStatusToDB\<close>

definition logJobStatus :: "JobStatus \<Rightarrow> world \<Rightarrow> world" where
  "logJobStatus jobStatus w =
     (case logFile w of
        None \<Rightarrow> w
      | Some f \<Rightarrow>
          let logLine = ''['' @ Timestamp jobStatus @ ''] Status: '' @ Status jobStatus @
                        '', Job UID: '' @ UID jobStatus @ '', Command: '' @ Command jobStatus @ NL;
              logLine = (if Status jobStatus = ''Failure''
                         then logLine @ ''['' @ Timestamp jobStatus @ ''] Error Occured Status: '' @
                              Status jobStatus @ '', Job UID: '' @ UID jobStatus @ NL @
                              ''Command: '' @ Command jobStatus @ '', Output: '' @
                              Output jobStatus @ NL
                         else logLine)
          in w\<lparr>stdout := stdout w @ logLine, logFile := Some (f @ logLine)\<rparr>)"

text \<open>
  \<^verbatim>\<open>INSERT INTO tasks (task_uid, command, timestamp, status, output) VALUES (?, ?, ?, ?, ?)\<close>:
  refused when a row already has the uid, else appended under the next rowid.
\<close>

definition insert_task :: "JobStatus \<Rightarrow> database \<Rightarrow> db_error + int \<times> database" where
  "insert_task jobStatus d =
     (if UID jobStatus \<in> set (map task_uid (tasks d))
      then Inl (ErrConstraint ''tasks.task_uid'')
      else let i = tasks_seq d + 1
           in Inr (i, d\<lparr>tasks := tasks d @
                          [\<lparr>task_id = i, task_uid = UID jobStatus, task_command = Command jobStatus,
                            task_timestamp = Timestamp jobStatus, task_status = Status jobStatus,
                            task_output = Output jobStatus\<rparr>],
                        tasks_seq := i\<rparr>))"

definition logJobStatusToDB :: "JobStatus \<Rightarrow> world \<Rightarrow> world" where
  "logJobStatusToDB jobStatus w =
     (case db w of
        None \<Rightarrow> w
      | Some d \<Rightarrow>
          (case insert_task jobStatus d of
             Inl err \<Rightarrow>
               w\<lparr>stdout := stdout w @ ''Error inserting into database: '' @ db_error_text err @ NL\<rparr>
           | Inr (autoIncrementalID, d') \<Rightarrow>
               w\<lparr>db := Some d',
                 stdout := stdout w @
                   ''Inserted job status into database with Auto Incremental ID: '' @
                   fmt_d autoIncrementalID @ NL\<rparr>))"

subsection \<open>Executor: job\<close>

text \<open>What one run of \<^verbatim>\<open>job\<close> reads from outside the program.\<close>

record job_env =
  proc :: exec_result
  endTime :: time
  fresh :: uuid

definition job :: "job_env \<Rightarrow> string \<Rightarrow> world \<Rightarrow> world" where
  "job env command w =
     (let (output, err) = CombinedOutput (proc env);
          status = (if err \<noteq> None then ''Failure'' else ''Success'');
          uid = uuid_String (fresh env);
          jobStatus = \<lparr>UID = uid, AutoIncrementalID = 0, Command = command,
                       Timestamp = Format (endTime env), Status = status, Output = output\<rparr>
      in logJobStatus jobStatus (logJobStatusToDB jobStatus w))"

subsection \<open>HTTP requests and responses\<close>

text \<open>
  A request is its method, the URL's query parameters and the parsed form (body
  parameters first, then the URL's). \<open>req_malformed\<close> says that \<^verbatim>\<open>ParseForm\<close> reports an
  error. \<^verbatim>\<open>Get\<close> and \<^verbatim>\<open>FormValue\<close> return the first value of a key, or the empty string.
\<close>

record request =
  req_method :: string
  req_query :: "(string \<times> string) list"
  req_form :: "(string \<times> string) list"
  req_malformed :: bool

definition Get :: "(string \<times> string) list \<Rightarrow> string \<Rightarrow> string" where
  "Get vs key = (case map_of vs key of None \<Rightarrow> [] | Some v \<Rightarrow> v)"

definition FormValue :: "request \<Rightarrow> string \<Rightarrow> string" where
  "FormValue r key = Get (req_form r) key"

text \<open>The view model the index template gets for one command.\<close>

record job_view =
  TaskUID :: string
  Command' :: string
  LastRun :: string
  SuccessCount :: nat
  FailureCount :: nat
  Output' :: string
  HasOutput :: bool

text \<open>
  What a handler answers. HTML rendering is outside the model: a page is the data its
  template is executed with. \<open>Panicked\<close> is a nil dereference inside the handler, which
  net/http recovers by dropping the connection.
\<close>

datatype response =
    HttpError nat string
  | Redirect string nat
  | Download string string
  | FormPage nat string string string string string
  | IndexPage string string "job_view list"
  | Panicked

subsection \<open>Status Query Service: downloadLogHandler\<close>

text \<open>
  \<^verbatim>\<open>SELECT task_uid, command, timestamp, status, output FROM tasks WHERE task_uid = ?\<close>
  read with \<^verbatim>\<open>QueryRow(...).Scan\<close>: the first matching row, or \<^verbatim>\<open>sql.ErrNoRows\<close>.
\<close>

definition query_task :: "string \<Rightarrow> database \<Rightarrow> db_error + task_row" where
  "query_task taskID d =
     (case find (\<lambda>row. task_uid row = taskID) (tasks d) of
        None \<Rightarrow> Inl ErrNoRows
      | Some row \<Rightarrow> Inr row)"

definition logContent :: "task_row \<Rightarrow> string" where
  "logContent row = ''Task ID: '' @ task_uid row @ NL @ ''Command: '' @ task_command row @ NL @
                    ''Timestamp: '' @ task_timestamp row @ NL @ ''Status: '' @ task_status row @ NL @
                    NL @ ''Output:'' @ NL @ task_output row @ NL"

definition downloadLogHandler :: "request \<Rightarrow> world \<Rightarrow> response" where
  "downloadLogHandler r w =
     (let taskID = Get (req_query r) ''task_uid'' in
      if taskID = [] then HttpError 400 ''Task ID not specified''
      else case db w of
             None \<Rightarrow> Panicked
           | Some d \<Rightarrow>
               (case query_task taskID d of
                  Inl err \<Rightarrow>
                    if err = ErrNoRows
                    then HttpError 404 ''No log entries found for the specified task ID''
                    else HttpError 500 ''Error querying database''
                | Inr row \<Rightarrow> Download (task_uid row @ ''.log'') (logContent row)))"

subsection \<open>Status Query Service: distinctCommandsHandler\<close>

text \<open>
  The query
  \<^verbatim>\<open>SELECT command, task_uid, MAX(timestamp) AS last_run, SUM(CASE WHEN status = 'Success'
  THEN 1 ELSE 0 END), SUM(CASE WHEN status = 'Failure' THEN 1 ELSE 0 END), output FROM tasks
  GROUP BY command ORDER BY last_run DESC\<close>.
  \<open>timestamp\<close> is a TEXT column, so \<^verbatim>\<open>MAX\<close> and \<^verbatim>\<open>ORDER BY\<close> compare the strings byte by
  byte (the order of \<^typ>\<open>string\<close> here). With a single \<^verbatim>\<open>MAX\<close>, SQLite takes the bare
  columns \<open>task_uid\<close> and \<open>output\<close> from the row that holds the maximum, the first such
  row in rowid order when several do. SQL leaves the order of groups with equal
  \<open>last_run\<close> open. SQLite returns them in descending order of \<open>command\<close>: the groups
  reach the sorter of \<^verbatim>\<open>ORDER BY\<close> in ascending order of \<open>command\<close>, and its descending
  sort gives equal keys back last in, first out. The model does the same, so its result
  is the groups in descending order of the pair (\<open>last_run\<close>, \<open>command\<close>).
\<close>

text \<open>One result row of the query; \<open>HasOutput\<close> is filled in by the handler.\<close>

definition new_group :: "task_row \<Rightarrow> job_view" where
  "new_group row =
     \<lparr>TaskUID = task_uid row, Command' = task_command row, LastRun = task_timestamp row,
      SuccessCount = (if task_status row = ''Success'' then 1 else 0),
      FailureCount = (if task_status row = ''Failure'' then 1 else 0),
      Output' = task_output row, HasOutput = False\<rparr>"

definition add_row :: "task_row \<Rightarrow> job_view \<Rightarrow> job_view" where
  "add_row row v =
     (let v' = v\<lparr>SuccessCount := SuccessCount v + (if task_status row = ''Success'' then 1 else 0),
                 FailureCount := FailureCount v + (if task_status row = ''Failure'' then 1 else 0)\<rparr>
      in if LastRun v < task_timestamp row
         then v'\<lparr>TaskUID := task_uid row, LastRun := task_timestamp row, Output' := task_output row\<rparr>
         else v')"

fun group_step :: "task_row \<Rightarrow> job_view list \<Rightarrow> job_view list" where
  "group_step row [] = [new_group row]"
| "group_step row (v # vs) =
     (if Command' v = task_command row then add_row row v # vs else v # group_step row vs)"

definition group_by_command :: "task_row list \<Rightarrow> job_view list" where
  "group_by_command rows = foldl (\<lambda>vs row. group_step row vs) [] rows"

definition comes_before :: "job_view \<Rightarrow> job_view \<Rightarrow> bool" where
  "comes_before v u =
     (LastRun u < LastRun v \<or> (LastRun u = LastRun v \<and> Command' u < Command' v))"

fun insert_desc :: "job_view \<Rightarrow> job_view list \<Rightarrow> job_view list" where
  "insert_desc v [] = [v]"
| "insert_desc v (u # us) = (if comes_before v u then v # u # us else u # insert_desc v us)"

definition order_by_last_run_desc :: "job_view list \<Rightarrow> job_view list" where
  "order_by_last_run_desc vs = foldr insert_desc vs []"

definition summarize :: "database \<Rightarrow> job_view list" where
  "summarize d = order_by_last_run_desc (group_by_command (tasks d))"

definition distinctCommandsHandler :: "time \<Rightarrow> request \<Rightarrow> world \<Rightarrow> response" where
  "distinctCommandsHandler now r w =
     (let refreshInterval = Get (req_query r) ''interval'';
          refreshInterval = (if refreshInterval = [] then ''5'' else refreshInterval)
      in case db w of
           None \<Rightarrow> Panicked
         | Some d \<Rightarrow>
             IndexPage (Format now) refreshInterval
               (map (\<lambda>v. v\<lparr>HasOutput := (length (Output' v) > 2)\<rparr>) (summarize d)))"

subsection \<open>The cron library, as far as the program uses it\<close>

text \<open>
  robfig/cron is a dependency, so its parser is a parameter: \<open>parse spec\<close> is \<open>None\<close> when
  the expression is accepted and the error's text otherwise. \<^verbatim>\<open>AddFunc\<close> adds an entry
  only for an accepted expression.
\<close>

type_synonym parser = "string \<Rightarrow> string option"

definition New :: cron where
  "New = \<lparr>cron_entries = [], cron_running = False\<rparr>"

definition AddFunc :: "parser \<Rightarrow> string \<Rightarrow> string \<Rightarrow> cron \<Rightarrow> string option \<times> cron" where
  "AddFunc parse spec cmd c =
     (case parse spec of
        Some err \<Rightarrow> (Some err, c)
      | None \<Rightarrow> (None, c\<lparr>cron_entries := cron_entries c @ [(spec, cmd)]\<rparr>))"

definition Start :: "cron \<Rightarrow> cron" where
  "Start c = c\<lparr>cron_running := True\<rparr>"

text \<open>
  The entries the running cron instances hold, and the commands a tick launches:
  \<open>due\<close> tells which expressions match the tick's minute.
\<close>

definition armed :: "world \<Rightarrow> (string \<times> string) list" where
  "armed w = concat (map cron_entries (filter cron_running (schedulers w)))"

definition dispatched :: "(string \<Rightarrow> bool) \<Rightarrow> world \<Rightarrow> string list" where
  "dispatched due w = map snd (filter (\<lambda>e. due (fst e)) (armed w))"

subsection \<open>Job Registry: submitJobHandler\<close>

definition renderFormWithError ::
    "string \<Rightarrow> string \<Rightarrow> string \<Rightarrow> string \<Rightarrow> string \<Rightarrow> response" where
  "renderFormWithError cronExpr command jobName jobDescription errorMessage =
     FormPage 400 cronExpr command jobName jobDescription errorMessage"

text \<open>\<^verbatim>\<open>SELECT EXISTS(SELECT 1 FROM jobs WHERE job_name = ?)\<close>: over every row, active or not.\<close>

definition job_name_exists :: "string \<Rightarrow> database \<Rightarrow> bool" where
  "job_name_exists jobName d = (jobName \<in> set (map job_name (jobs d)))"

text \<open>
  \<^verbatim>\<open>INSERT INTO jobs (job_name, job_schedule, job_command, job_description, added_at)\<close>:
  refused by UNIQUE when the name is taken; \<open>job_status\<close> defaults to 1, \<open>updated_at\<close>
  stays NULL.
\<close>

definition insert_job ::
    "string \<Rightarrow> string \<Rightarrow> string \<Rightarrow> string \<Rightarrow> string \<Rightarrow> database \<Rightarrow> db_error + database" where
  "insert_job jobName cronExpr command jobDescription timestamp d =
     (if jobName \<in> set (map job_name (jobs d))
      then Inl (ErrConstraint ''jobs.job_name'')
      else let i = jobs_seq d + 1
           in Inr (d\<lparr>jobs := jobs d @
                        [\<lparr>job_id = i, job_name = jobName, job_schedule = cronExpr,
                          job_command = command, job_description = jobDescription,
                          added_at = timestamp, job_status = True, updated_at = None\<rparr>],
                      jobs_seq := i\<rparr>))"

definition submitJobHandler :: "parser \<Rightarrow> time \<Rightarrow> request \<Rightarrow> world \<Rightarrow> response \<times> world" where
  "submitJobHandler parse now r w =
     (if req_method r \<noteq> ''POST'' then (HttpError 405 ''Invalid request method'', w)
      else
        let cronExpr = FormValue r ''cron_expr'';
            command = FormValue r ''command'';
            jobName = FormValue r ''job_name'';
            jobDescription = FormValue r ''job_description''
        in if cronExpr = [] \<or> command = [] \<or> jobName = [] \<or> jobDescription = []
           then (renderFormWithError cronExpr command jobName jobDescription
                   ''Missing cron expression, command, job name, or job description'', w)
           else case db w of
                  None \<Rightarrow> (Panicked, w)
                | Some d \<Rightarrow>
                    if job_name_exists jobName d
                    then (renderFormWithError cronExpr command jobName jobDescription
                            ''Job name already exists. Please enter a different unique job name.'', w)
                    else (case insert_job jobName cronExpr command jobDescription (Format now) d of
                            Inl err \<Rightarrow>
                              (renderFormWithError cronExpr command jobName jobDescription
                                 ''Error inserting job into database'', w)
                          | Inr d' \<Rightarrow>
                              let w1 = w\<lparr>db := Some d'\<rparr>;
                                  (err, c) = AddFunc parse cronExpr command New;
                                  w2 = (case err of
                                          Some e \<Rightarrow>
                                            w1\<lparr>stdout := stdout w1 @ ''Error scheduling new job: '' @ e @ NL\<rparr>
                                        | None \<Rightarrow> w1\<lparr>schedulers := schedulers w1 @ [Start c]\<rparr>)
                              in (Redirect ''/'' 303, w2)))"

subsection \<open>Job Registry: scheduleJobsFromTable, getJobs, deleteJobHandler, start-up\<close>

text \<open>\<^verbatim>\<open>SELECT ... FROM jobs WHERE job_status = 1\<close>: the rows still active.\<close>

definition active_jobs :: "database \<Rightarrow> job_row list" where
  "active_jobs d = filter job_status (jobs d)"

fun schedule_rows :: "parser \<Rightarrow> (string \<times> string) list \<Rightarrow> cron \<Rightarrow> string \<Rightarrow> cron \<times> string" where
  "schedule_rows parse [] c out = (c, out)"
| "schedule_rows parse ((cronExpr, command) # rows) c out =
     (case AddFunc parse cronExpr command c of
        (Some err, c') \<Rightarrow> schedule_rows parse rows c' (out @ ''Error scheduling job: '' @ err @ NL)
      | (None, c') \<Rightarrow>
          schedule_rows parse rows c'
            (out @ ''Scheduled job: '' @ command @ '' with cron expression: '' @ cronExpr @ NL))"

text \<open>\<open>None\<close>: the query on a nil handle panics, which ends the process.\<close>

definition scheduleJobsFromTable :: "parser \<Rightarrow> cron \<Rightarrow> world \<Rightarrow> (cron \<times> world) option" where
  "scheduleJobsFromTable parse c w =
     (case db w of
        None \<Rightarrow> None
      | Some d \<Rightarrow>
          let (c', out) = schedule_rows parse
                            (map (\<lambda>j. (job_schedule j, job_command j)) (active_jobs d)) c (stdout w)
          in Some (c', w\<lparr>stdout := out\<rparr>))"

definition getJobs :: "world \<Rightarrow> (string \<times> string) list option" where
  "getJobs w =
     (case db w of
        None \<Rightarrow> None
      | Some d \<Rightarrow> Some (map (\<lambda>j. (fmt_d (job_id j), job_name j)) (active_jobs d)))"

definition logSchedulerStart :: "time \<Rightarrow> world \<Rightarrow> world" where
  "logSchedulerStart now w =
     (let message = ''['' @ Format now @ ''] Scheduler has started'' @ NL;
          w1 = w\<lparr>stdout := stdout w @ message\<rparr>
      in case logFile w1 of
           None \<Rightarrow> w1
         | Some f \<Rightarrow> w1\<lparr>logFile := Some (f @ message)\<rparr>)"

text \<open>
  The scheduling part of \<^verbatim>\<open>main\<close>, once both handles are open:
  \<^verbatim>\<open>c := cron.New(); scheduleJobsFromTable(c); c.Start(); logSchedulerStart()\<close>.
\<close>

definition main_start :: "parser \<Rightarrow> time \<Rightarrow> world \<Rightarrow> world option" where
  "main_start parse now w =
     (case scheduleJobsFromTable parse New w of
        None \<Rightarrow> None
      | Some (c, w') \<Rightarrow> Some (logSchedulerStart now (w'\<lparr>schedulers := schedulers w' @ [Start c]\<rparr>)))"

text \<open>
  The form posts \<open>job_id\<close> as text and \<^verbatim>\<open>UPDATE jobs SET job_status = 0 WHERE job_id = ?\<close>
  compares it with an INTEGER column. SQLite reads the text as a number for that (blanks
  around it, a sign, a fraction and an exponent are allowed, and the value is rounded to
  a double), and a text that is no number equals no id. That comparison belongs to the
  storage engine, so it is a parameter: \<open>same_number text n\<close> says that SQLite finds the
  text equal to the integer \<open>n\<close>.
\<close>

type_synonym number_compare = "string \<Rightarrow> int \<Rightarrow> bool"

definition disable_job :: "number_compare \<Rightarrow> string \<Rightarrow> database \<Rightarrow> database" where
  "disable_job same_number jobID d =
     d\<lparr>jobs := map (\<lambda>j. if same_number jobID (job_id j)
                         then j\<lparr>job_status := False\<rparr> else j) (jobs d)\<rparr>"

definition deleteJobHandler ::
    "number_compare \<Rightarrow> request \<Rightarrow> world \<Rightarrow> response \<times> world" where
  "deleteJobHandler same_number r w =
     (if req_method r \<noteq> ''POST'' then (HttpError 405 ''Invalid request method'', w)
      else if req_malformed r then (HttpError 400 ''Failed to parse form data'', w)
      else
        let jobID = FormValue r ''job_id''
        in if jobID = [] then (HttpError 400 ''Job ID is required'', w)
           else case db w of
                  None \<Rightarrow> (Panicked, w)
                | Some d \<Rightarrow> (Redirect ''/'' 303, w\<lparr>db := Some (disable_job same_number jobID d)\<rparr>))"

subsection \<open>Batch source: scheduleJobsFromFile\<close>

text \<open>
  The variant of the program that reads its jobs from \<^verbatim>\<open>cron_jobs.txt\<close>, one
  \<^verbatim>\<open><5-field-cron> <command>\<close> per line, instead of the \<open>jobs\<close> table.

  \<^verbatim>\<open>strings.Fields\<close>: the maximal runs of bytes between white-space runes. White space
  is what \<^verbatim>\<open>unicode.IsSpace\<close> accepts: the six ASCII characters, U+0085, U+00A0, U+1680,
  U+2000 to U+200A, U+2028, U+2029, U+202F, U+205F and U+3000, each in its UTF-8
  encoding. \<open>space_width\<close> is the number of bytes of the white-space rune a string starts
  with, 0 when it starts with none. Each of these encodings begins with a byte that is
  no continuation byte, so wherever its bytes occur Go decodes them as that rune,
  whether the string around them is well-formed UTF-8 or not; every other byte belongs
  to a field. \<^verbatim>\<open>strings.Join\<close> puts the separator between the parts.
\<close>

definition is_space :: "char \<Rightarrow> bool" where
  "is_space c = (c \<in> set [CHR 0x09, CHR 0x0A, CHR 0x0B, CHR 0x0C, CHR 0x0D, CHR 0x20])"

definition space_width :: "string \<Rightarrow> nat" where
  "space_width s =
     (case s of
        [] \<Rightarrow> 0
      | a # s1 \<Rightarrow>
          if is_space a then 1
          else (case s1 of
                  [] \<Rightarrow> 0
                | b # s2 \<Rightarrow>
                    if a = CHR 0xC2 \<and> (b = CHR 0x85 \<or> b = CHR 0xA0) then 2
                    else (case s2 of
                            [] \<Rightarrow> 0
                          | c # s3 \<Rightarrow>
                              if a = CHR 0xE1 \<and> b = CHR 0x9A \<and> c = CHR 0x80 then 3
                              else if a = CHR 0xE2 \<and> b = CHR 0x80 \<and>
                                      ((0x80 \<le> (of_char c :: nat) \<and> (of_char c :: nat) \<le> 0x8A) \<or>
                                       c = CHR 0xA8 \<or> c = CHR 0xA9 \<or> c = CHR 0xAF) then 3
                              else if a = CHR 0xE2 \<and> b = CHR 0x81 \<and> c = CHR 0x9F then 3
                              else if a = CHR 0xE3 \<and> b = CHR 0x80 \<and> c = CHR 0x80 then 3
                              else 0)))"

fun fields_from :: "string \<Rightarrow> string \<Rightarrow> string list" where
  "fields_from cur [] = (if cur = [] then [] else [cur])"
| "fields_from cur (c # cs) =
     (if space_width (c # cs) = 0 then fields_from (cur @ [c]) cs
      else if cur = [] then fields_from [] (drop (space_width (c # cs) - 1) cs)
      else cur # fields_from [] (drop (space_width (c # cs) - 1) cs))"

declare fields_from.simps [simp del]

definition Fields :: "string \<Rightarrow> string list" where
  "Fields s = fields_from [] s"












subsection \<open>A parser for the plain expressions\<close>

text \<open>
  Modelled from the spec: the cron expression parser (robfig/cron, a dependency) is
  missing. The spec asks for five space-separated fields, each \<^verbatim>\<open>*\<close> or a literal
  integer: minute 0-59, hour 0-23, day of month 1-31, month 1-12, day of week 0-6. It
  stands in for the parameter \<open>parse\<close> where a theorem runs the code on a concrete
  input.
\<close>

definition is_digit :: "char \<Rightarrow> bool" where
  "is_digit c = (c \<in> set ''0123456789'')"

definition digit_value :: "char \<Rightarrow> nat" where
  "digit_value c = of_char c - 48"

definition digits_value :: "string \<Rightarrow> nat" where
  "digits_value s = foldl (\<lambda>a c. 10 * a + digit_value c) 0 s"

definition all_digits :: "string \<Rightarrow> bool" where
  "all_digits s = (s \<noteq> [] \<and> list_all is_digit s)"

definition field_ok :: "nat \<Rightarrow> nat \<Rightarrow> string \<Rightarrow> bool" where
  "field_ok lo hi f = (f = ''*'' \<or> (all_digits f \<and> lo \<le> digits_value f \<and> digits_value f \<le> hi))"

definition plain_parse :: parser where
  "plain_parse spec =
     (case Fields spec of
        [mi, h, dm, mo, dw] \<Rightarrow>
          if field_ok 0 59 mi \<and> field_ok 0 23 h \<and> field_ok 1 31 dm \<and> field_ok 1 12 mo \<and>
             field_ok 0 6 dw
          then None else Some ''field value out of range''
      | fs \<Rightarrow> Some (''expected exactly 5 fields, found '' @ decimal (length fs)))"

subsection \<open>Notions the theorems are stated with\<close>

text \<open>A response that reports an error to the caller.\<close>

fun rejected :: "response \<Rightarrow> bool" where
  "rejected (HttpError code msg) = True"
| "rejected (FormPage code cronExpr command jobName jobDescription msg) = True"
| "rejected other = False"





text \<open>
  What a result row of the summary query says about the rows of its command: the two
  counts, and \<open>LastRun\<close> as the greatest timestamp of the group in the order of the
  strings.
\<close>

definition group_ok :: "task_row list \<Rightarrow> job_view \<Rightarrow> bool" where
  "group_ok rows v =
     (let g = filter (\<lambda>r. task_command r = Command' v) rows
      in SuccessCount v = length (filter (\<lambda>r. task_status r = ''Success'') g) \<and>
         FailureCount v = length (filter (\<lambda>r. task_status r = ''Failure'') g) \<and>
         LastRun v \<in> set (map task_timestamp g) \<and>
         (\<forall>r\<in>set g. task_timestamp r \<le> LastRun v))"

subsection \<open>Sample inputs\<close>

definition sample_uuid :: uuid where
  "sample_uuid = [0x3f, 0x2a, 0x91, 0x0c, 0x5d, 0x44, 0x4e, 0x1b, 0x8a, 0x07, 0xc2, 0x19, 0x6e, 0xb0, 0x55, 0xd3]"

definition other_uuid :: uuid where
  "other_uuid = [0x7c, 0x10, 0x02, 0xee, 0x41, 0x9a, 0x4b, 0x6f, 0x93, 0x58, 0x0d, 0xa4, 0x27, 0x31, 0xf8, 0x6a]"

definition sample_time :: time where
  "sample_time = \<lparr>year = 2024, month = 1, day = 31, hour = 10, minute = 0, second = 0\<rparr>"

definition next_day :: time where
  "next_day = \<lparr>year = 2024, month = 2, day = 1, hour = 10, minute = 0, second = 0\<rparr>"

definition empty_db :: database where
  "empty_db = \<lparr>tasks = [], tasks_seq = 0, jobs = [], jobs_seq = 0\<rparr>"

definition fresh_world :: world where
  "fresh_world = \<lparr>logFile = Some [], db = Some empty_db, stdout = [], schedulers = []\<rparr>"

definition nil_world :: world where
  "nil_world = \<lparr>logFile = None, db = None, stdout = [], schedulers = []\<rparr>"

definition ok_env :: job_env where
  "ok_env = \<lparr>proc = Exited 0 (''ok'' @ NL), endTime = sample_time, fresh = sample_uuid\<rparr>"

definition fail_env :: job_env where
  "fail_env = \<lparr>proc = Exited 1 ''boom'', endTime = next_day, fresh = other_uuid\<rparr>"

definition spawn_fail_env :: job_env where
  "spawn_fail_env = \<lparr>proc = StartFailed ''fork/exec /usr/bin/bash: resource temporarily unavailable'',
                      endTime = next_day, fresh = other_uuid\<rparr>"

definition sample_status :: JobStatus where
  "sample_status = \<lparr>UID = uuid_String sample_uuid, AutoIncrementalID = 0, Command = ''echo ok'',
                     Timestamp = Format sample_time, Status = ''Success'', Output = ''ok'' @ NL\<rparr>"

definition download_request :: "string \<Rightarrow> request" where
  "download_request uid =
     \<lparr>req_method = ''GET'', req_query = [(''task_uid'', uid)], req_form = [], req_malformed = False\<rparr>"

definition post :: "(string \<times> string) list \<Rightarrow> request" where
  "post form = \<lparr>req_method = ''POST'', req_query = [], req_form = form, req_malformed = False\<rparr>"

text \<open>A store that already holds the active job \<open>ping\<close>.\<close>

definition ping_db :: database where
  "ping_db =
     \<lparr>tasks = [], tasks_seq = 0,
      jobs = [\<lparr>job_id = 1, job_name = ''ping'', job_schedule = ''* * * * *'',
               job_command = ''echo ok'', job_description = ''heartbeat'',
               added_at = ''30-01-2024 09:00:00'', job_status = True, updated_at = None\<rparr>],
      jobs_seq = 1\<rparr>"

definition ping_world :: world where
  "ping_world = \<lparr>logFile = Some [], db = Some ping_db, stdout = [], schedulers = []\<rparr>"

definition ping_form :: "(string \<times> string) list" where
  "ping_form = [(''cron_expr'', ''0 * * * *''), (''command'', ''echo again''),
                (''job_name'', ''ping''), (''job_description'', ''second ping'')]"

definition bad_cron_form :: "(string \<times> string) list" where
  "bad_cron_form = [(''cron_expr'', ''61 * * * *''), (''command'', ''echo ok''),
                    (''job_name'', ''bad''), (''job_description'', ''never runs'')]"

text \<open>Two runs a day apart: first on 31 January, then on 1 February.\<close>

definition two_commands :: world where
  "two_commands =
     job \<lparr>proc = Exited 0 ''b'', endTime = next_day, fresh = other_uuid\<rparr> ''echo b''
       (job \<lparr>proc = Exited 0 ''a'', endTime = sample_time, fresh = sample_uuid\<rparr> ''echo a''
          fresh_world)"

definition one_command_twice :: world where
  "one_command_twice =
     job \<lparr>proc = Exited 1 ''second'', endTime = next_day, fresh = other_uuid\<rparr> ''run.sh''
       (job \<lparr>proc = Exited 0 ''first'', endTime = sample_time, fresh = sample_uuid\<rparr> ''run.sh''
          fresh_world)"

text \<open>Three commands whose only runs ended in the same second.\<close>

definition tied_db :: database where
  "tied_db =
     \<lparr>tasks =
        [\<lparr>task_id = 1, task_uid = ''u1'', task_command = ''c'', task_timestamp = ''31-01-2024 10:00:00'',
           task_status = ''Success'', task_output = []\<rparr>,
         \<lparr>task_id = 2, task_uid = ''u2'', task_command = ''a'', task_timestamp = ''31-01-2024 10:00:00'',
           task_status = ''Success'', task_output = []\<rparr>,
         \<lparr>task_id = 3, task_uid = ''u3'', task_command = ''b'', task_timestamp = ''31-01-2024 10:00:00'',
           task_status = ''Failure'', task_output = []\<rparr>],
      tasks_seq = 3, jobs = [], jobs_seq = 0\<rparr>"







section \<open>Theorems\<close>

subsection \<open>Helper facts\<close>

lemma uuid_String_nonempty: "uuid_String u \<noteq> []"
  by (simp add: uuid_String_def)

lemma CombinedOutput_err_nil: "snd (CombinedOutput r) = None \<longleftrightarrow> (\<exists>out. r = Exited 0 out)"
  by (cases r) (auto simp: CombinedOutput_def)

lemma job_unfold:
  "job env command w =
     logJobStatus \<lparr>UID = uuid_String (fresh env), AutoIncrementalID = 0, Command = command,
                    Timestamp = Format (endTime env),
                    Status = (if snd (CombinedOutput (proc env)) \<noteq> None then ''Failure'' else ''Success''),
                    Output = fst (CombinedOutput (proc env))\<rparr>
       (logJobStatusToDB \<lparr>UID = uuid_String (fresh env), AutoIncrementalID = 0, Command = command,
                    Timestamp = Format (endTime env),
                    Status = (if snd (CombinedOutput (proc env)) \<noteq> None then ''Failure'' else ''Success''),
                    Output = fst (CombinedOutput (proc env))\<rparr> w)"
  by (simp add: job_def Let_def split: prod.splits)

lemma db_logJobStatus: "db (logJobStatus jobStatus w) = db w"
  by (simp add: logJobStatus_def Let_def split: option.splits)

lemma db_logJobStatusToDB_fresh:
  "db w = Some d \<Longrightarrow> UID jobStatus \<notin> set (map task_uid (tasks d)) \<Longrightarrow>
   db (logJobStatusToDB jobStatus w) =
     Some (d\<lparr>tasks := tasks d @
               [\<lparr>task_id = tasks_seq d + 1, task_uid = UID jobStatus, task_command = Command jobStatus,
                 task_timestamp = Timestamp jobStatus, task_status = Status jobStatus,
                 task_output = Output jobStatus\<rparr>],
              tasks_seq := tasks_seq d + 1\<rparr>)"
  by (simp add: logJobStatusToDB_def insert_task_def Let_def)

lemma sample_uuid_String: "uuid_String sample_uuid = ''3f2a910c-5d44-4e1b-8a07-c2196eb055d3''"
  by code_simp

lemma sample_time_Format: "Format sample_time = ''31-01-2024 10:00:00''"
  by code_simp

lemma other_uuid_String: "uuid_String other_uuid = ''7c1002ee-419a-4b6f-9358-0da42731f86a''"
  by code_simp

lemma next_day_Format: "Format next_day = ''01-02-2024 10:00:00''"
  by code_simp

lemmas run_defs = job_def CombinedOutput_def logJobStatusToDB_def logJobStatus_def
  insert_task_def fresh_world_def empty_db_def Let_def
  other_uuid_String sample_uuid_String sample_time_Format next_day_Format

lemma find_append_Some: "find P xs = Some x \<Longrightarrow> find P (xs @ ys) = Some x"
  by (induction xs) (auto split: if_splits)

lemma find_snoc_new: "\<forall>x\<in>set xs. \<not> P x \<Longrightarrow> P y \<Longrightarrow> find P (xs @ [y]) = Some y"
  by (induction xs) auto

lemma insert_task_tasks:
  "insert_task jobStatus d = Inr (i, d') \<Longrightarrow>
   UID jobStatus \<notin> set (map task_uid (tasks d)) \<and>
   tasks d' = tasks d @ [\<lparr>task_id = i, task_uid = UID jobStatus, task_command = Command jobStatus,
                            task_timestamp = Timestamp jobStatus, task_status = Status jobStatus,
                            task_output = Output jobStatus\<rparr>]"
  by (auto simp: insert_task_def Let_def split: if_splits)

text \<open>The store only grows: recording never removes or rewrites a row.\<close>

lemma logJobStatusToDB_extends:
  "db w = Some d \<Longrightarrow>
   \<exists>d' extra. db (logJobStatusToDB jobStatus w) = Some d' \<and> tasks d' = tasks d @ extra"
  by (cases "insert_task jobStatus d")
     (auto simp: logJobStatusToDB_def dest: insert_task_tasks)

lemma job_extends:
  "db w = Some d \<Longrightarrow> \<exists>d' extra. db (job env command w) = Some d' \<and> tasks d' = tasks d @ extra"
  unfolding job_unfold db_logJobStatus by (rule logJobStatusToDB_extends)

lemma jobs_extend:
  "db w = Some d \<Longrightarrow>
   \<exists>d' extra. db (foldl (\<lambda>w e. job (fst e) (snd e) w) w later) = Some d' \<and>
              tasks d' = tasks d @ extra"
proof (induction later arbitrary: w d)
  case Nil
  then show ?case by simp
next
  case (Cons e later)
  from job_extends [OF Cons.prems, of "fst e" "snd e"]
  obtain d1 extra1 where d1: "db (job (fst e) (snd e) w) = Some d1" "tasks d1 = tasks d @ extra1"
    by blast
  from Cons.IH [OF d1(1)] obtain d2 extra2
    where "db (foldl (\<lambda>w e. job (fst e) (snd e) w) (job (fst e) (snd e) w) later) = Some d2"
      and "tasks d2 = tasks d1 @ extra2" by blast
  with d1 show ?case by auto
qed

lemma query_task_found:
  "find (\<lambda>row. task_uid row = uid) (tasks d) = Some row \<Longrightarrow> tasks d2 = tasks d @ extra \<Longrightarrow>
   query_task uid d2 = Inr row"
  by (simp add: query_task_def find_append_Some)





lemma two_commands_db:
  "db two_commands =
     Some \<lparr>tasks =
       [\<lparr>task_id = 1, task_uid = ''3f2a910c-5d44-4e1b-8a07-c2196eb055d3'', task_command = ''echo a'',
          task_timestamp = ''31-01-2024 10:00:00'', task_status = ''Success'', task_output = ''a''\<rparr>,
        \<lparr>task_id = 2, task_uid = ''7c1002ee-419a-4b6f-9358-0da42731f86a'', task_command = ''echo b'',
          task_timestamp = ''01-02-2024 10:00:00'', task_status = ''Success'', task_output = ''b''\<rparr>],
       tasks_seq = 2, jobs = [], jobs_seq = 0\<rparr>"
  by (simp add: two_commands_def run_defs)

lemma one_command_twice_db:
  "db one_command_twice =
     Some \<lparr>tasks =
       [\<lparr>task_id = 1, task_uid = ''3f2a910c-5d44-4e1b-8a07-c2196eb055d3'', task_command = ''run.sh'',
          task_timestamp = ''31-01-2024 10:00:00'', task_status = ''Success'', task_output = ''first''\<rparr>,
        \<lparr>task_id = 2, task_uid = ''7c1002ee-419a-4b6f-9358-0da42731f86a'', task_command = ''run.sh'',
          task_timestamp = ''01-02-2024 10:00:00'', task_status = ''Failure'', task_output = ''second''\<rparr>],
       tasks_seq = 2, jobs = [], jobs_seq = 0\<rparr>"
  by (simp add: one_command_twice_def run_defs decimal.simps)












text \<open>A no-break space (U+00A0) and a thin space (U+2009) separate fields like a blank does.\<close>

lemma Fields_unicode_space:
  "Fields (''*/5'' @ [CHR 0xC2, CHR 0xA0] @ ''echo'' @ [CHR 0xE2, CHR 0x80, CHR 0x89] @ ''hi there'')
     = [''*/5'', ''echo'', ''hi'', ''there'']"
  by code_simp





lemma plain_parse_every_minute: "plain_parse ''* * * * *'' = None"
  by code_simp



lemmas query_defs = summarize_def group_by_command_def new_group_def add_row_def
  order_by_last_run_desc_def comes_before_def

subsection \<open>C1: one execution, one record, Success exactly for exit status 0\<close>

text \<open>
  C1. Whatever the command did (exit status 0, another status, a signal, no start at
  all), \<^verbatim>\<open>job\<close> returns the next state and raises nothing: it builds one \<^verbatim>\<open>JobStatus\<close> and
  hands that one record to both sinks. The record carries the command, the fresh uid and
  the captured output; its status is \<open>Success\<close> exactly when the process exited with
  status 0 and \<open>Failure\<close> in every other case, a failed start included. When the store is
  open and the uid is not yet in it, the run appends exactly that one row to \<open>tasks\<close>.
\<close>

theorem job_one_record:
  "\<exists>jobStatus.
     job env command w = logJobStatus jobStatus (logJobStatusToDB jobStatus w) \<and>
     UID jobStatus = uuid_String (fresh env) \<and> Command jobStatus = command \<and>
     Timestamp jobStatus = Format (endTime env) \<and>
     Output jobStatus = fst (CombinedOutput (proc env)) \<and>
     (Status jobStatus = ''Success'') = (\<exists>out. proc env = Exited 0 out) \<and>
     (Status jobStatus = ''Failure'') = (\<not> (\<exists>out. proc env = Exited 0 out)) \<and>
     (\<forall>d. db w = Some d \<and> UID jobStatus \<notin> set (map task_uid (tasks d)) \<longrightarrow>
        map_option tasks (db (job env command w)) =
          Some (tasks d @
                [\<lparr>task_id = tasks_seq d + 1, task_uid = UID jobStatus, task_command = command,
                  task_timestamp = Timestamp jobStatus, task_status = Status jobStatus,
                  task_output = Output jobStatus\<rparr>]))"
proof -
  let ?js = "\<lparr>UID = uuid_String (fresh env), AutoIncrementalID = 0, Command = command,
              Timestamp = Format (endTime env),
              Status = (if snd (CombinedOutput (proc env)) \<noteq> None then ''Failure'' else ''Success''),
              Output = fst (CombinedOutput (proc env))\<rparr>"
  have run: "job env command w = logJobStatus ?js (logJobStatusToDB ?js w)"
    by (rule job_unfold)
  have status: "(Status ?js = ''Success'') = (\<exists>out. proc env = Exited 0 out)"
               "(Status ?js = ''Failure'') = (\<not> (\<exists>out. proc env = Exited 0 out))"
    using CombinedOutput_err_nil [of "proc env"] by auto
  have store: "map_option tasks (db (job env command w)) =
          Some (tasks d @
                [\<lparr>task_id = tasks_seq d + 1, task_uid = UID ?js, task_command = command,
                  task_timestamp = Timestamp ?js, task_status = Status ?js,
                  task_output = Output ?js\<rparr>])"
    if "db w = Some d" and "UID ?js \<notin> set (map task_uid (tasks d))" for d
    unfolding run db_logJobStatus using db_logJobStatusToDB_fresh [OF that] by simp
  from run status store show ?thesis
    by (intro exI [of _ ?js]) simp
qed

theorem job_one_record_witness:
  "map_option tasks (db (job ok_env ''echo ok'' fresh_world)) =
     Some [\<lparr>task_id = 1, task_uid = ''3f2a910c-5d44-4e1b-8a07-c2196eb055d3'',
             task_command = ''echo ok'', task_timestamp = ''31-01-2024 10:00:00'',
             task_status = ''Success'', task_output = ''ok'' @ NL\<rparr>] \<and>
   map_option tasks (db (job spawn_fail_env ''echo ok'' fresh_world)) =
     Some [\<lparr>task_id = 1, task_uid = ''7c1002ee-419a-4b6f-9358-0da42731f86a'',
             task_command = ''echo ok'', task_timestamp = ''01-02-2024 10:00:00'',
             task_status = ''Failure'', task_output = []\<rparr>]"
  using job_one_record [of ok_env "''echo ok''" fresh_world]
        job_one_record [of spawn_fail_env "''echo ok''" fresh_world]
  by (auto simp: fresh_world_def empty_db_def ok_env_def spawn_fail_env_def sample_uuid_String
        sample_time_Format other_uuid_String next_day_Format CombinedOutput_def)

subsection \<open>C2: a taken job name is refused and nothing changes\<close>

text \<open>
  C2. When the submitted name is already the name of a job that is not deleted, the
  request is answered with an error and the whole process state is as before: no row is
  inserted, the number of jobs is the same, no cron entry is added. For a POST with all
  four fields the error is the form page saying that the name exists. The comparison is
  equality of the byte strings, so it is case-sensitive.
\<close>

theorem duplicate_name_rejected:
  assumes "db w = Some d" and "\<exists>j\<in>set (active_jobs d). job_name j = FormValue r ''job_name''"
  shows "snd (submitJobHandler parse now r w) = w \<and>
         rejected (fst (submitJobHandler parse now r w)) \<and>
         map_option (\<lambda>d. length (jobs d)) (db (snd (submitJobHandler parse now r w)))
           = Some (length (jobs d)) \<and>
         (req_method r = ''POST'' \<and> FormValue r ''cron_expr'' \<noteq> [] \<and> FormValue r ''command'' \<noteq> [] \<and>
          FormValue r ''job_name'' \<noteq> [] \<and> FormValue r ''job_description'' \<noteq> [] \<longrightarrow>
            fst (submitJobHandler parse now r w) =
              renderFormWithError (FormValue r ''cron_expr'') (FormValue r ''command'')
                (FormValue r ''job_name'') (FormValue r ''job_description'')
                ''Job name already exists. Please enter a different unique job name.'')"
proof -
  from assms(2) have "job_name_exists (FormValue r ''job_name'') d"
    by (force simp: job_name_exists_def active_jobs_def)
  then show ?thesis
    using assms(1) by (simp add: submitJobHandler_def Let_def renderFormWithError_def)
qed

theorem duplicate_name_rejected_witness:
  "snd (submitJobHandler plain_parse sample_time (post ping_form) ping_world) = ping_world \<and>
   fst (submitJobHandler plain_parse sample_time (post ping_form) ping_world) =
     FormPage 400 ''0 * * * *'' ''echo again'' ''ping'' ''second ping''
       ''Job name already exists. Please enter a different unique job name.''"
proof -
  have h1: "db ping_world = Some ping_db"
    by (simp add: ping_world_def)
  have h2: "\<exists>j\<in>set (active_jobs ping_db). job_name j = FormValue (post ping_form) ''job_name''"
    by (simp add: active_jobs_def ping_db_def FormValue_def Get_def post_def ping_form_def)
  show ?thesis
    using duplicate_name_rejected [OF h1 h2, of plain_parse sample_time]
    by (simp add: FormValue_def Get_def post_def ping_form_def renderFormWithError_def)
qed

text \<open>A name that differs in case only is another name: the registration goes through.\<close>

lemma other_case_is_another_name:
  "(case submitJobHandler plain_parse sample_time
           (post [(''cron_expr'', ''0 * * * *''), (''command'', ''echo again''),
                  (''job_name'', ''Ping''), (''job_description'', ''second ping'')]) ping_world of
      (resp, w') \<Rightarrow>
        resp = Redirect ''/'' 303 \<and>
        map_option (\<lambda>d. map job_name (jobs d)) (db w') = Some [''ping'', ''Ping''])"
  by code_simp

subsection \<open>C3: disabling a job does not unarm it\<close>

lemma ping_world_started:
  "main_start plain_parse sample_time ping_world =
     Some (ping_world
       \<lparr>stdout := ''Scheduled job: echo ok with cron expression: * * * * *'' @ NL @
                  ''[31-01-2024 10:00:00] Scheduler has started'' @ NL,
        schedulers := [\<lparr>cron_entries = [(''* * * * *'', ''echo ok'')], cron_running = True\<rparr>],
        logFile := Some (''[31-01-2024 10:00:00] Scheduler has started'' @ NL)\<rparr>)"
  by (simp add: main_start_def scheduleJobsFromTable_def active_jobs_def ping_world_def ping_db_def
        AddFunc_def plain_parse_every_minute New_def Start_def logSchedulerStart_def Let_def
        sample_time_Format)

text \<open>
  C3 does not hold of the code. The process starts with the active job \<open>ping\<close> in the
  store, \<^verbatim>\<open>main\<close> arms it, and \<^verbatim>\<open>deleteJobHandler\<close> is posted its id, which the store finds
  equal to the number 1. The handler answers with the redirect and the store has no
  active job left, yet the running cron instance still holds the entry and a tick at a
  minute that \<^verbatim>\<open>* * * * *\<close> matches still launches the command: only the table is updated,
  the clock is read from it at start-up alone.
\<close>

theorem delete_leaves_job_armed:
  assumes "same_number ''1'' 1"
  shows "(case main_start plain_parse sample_time ping_world of
            None \<Rightarrow> False
          | Some w1 \<Rightarrow>
              armed w1 = [(''* * * * *'', ''echo ok'')] \<and>
              (case deleteJobHandler same_number (post [(''job_id'', ''1'')]) w1 of
                 (resp, w2) \<Rightarrow>
                   resp = Redirect ''/'' 303 \<and>
                   map_option active_jobs (db w2) = Some [] \<and>
                   armed w2 = [(''* * * * *'', ''echo ok'')] \<and>
                   dispatched (\<lambda>spec. spec = ''* * * * *'') w2 = [''echo ok'']))"
  using assms unfolding ping_world_started
  by (simp add: deleteJobHandler_def disable_job_def active_jobs_def armed_def
        dispatched_def post_def FormValue_def Get_def ping_world_def ping_db_def Let_def)

theorem delete_leaves_job_armed_witness:
  "(case main_start plain_parse sample_time ping_world of
      None \<Rightarrow> False
    | Some w1 \<Rightarrow>
        armed w1 = [(''* * * * *'', ''echo ok'')] \<and>
        (case deleteJobHandler (\<lambda>text n. text = ''1'' \<and> n = 1) (post [(''job_id'', ''1'')]) w1 of
           (resp, w2) \<Rightarrow>
             resp = Redirect ''/'' 303 \<and>
             map_option active_jobs (db w2) = Some [] \<and>
             armed w2 = [(''* * * * *'', ''echo ok'')] \<and>
             dispatched (\<lambda>spec. spec = ''* * * * *'') w2 = [''echo ok'']))"
  using delete_leaves_job_armed [of "\<lambda>text n. text = ''1'' \<and> n = 1"] by simp

text \<open>
  The same for every request, every state and every way the store compares the id: the
  handler never touches the clock.
\<close>

lemma deleteJobHandler_keeps_armed: "armed (snd (deleteJobHandler same_number r w)) = armed w"
  by (simp add: deleteJobHandler_def armed_def Let_def split: option.splits)

text \<open>The flag takes effect at the next start-up: a process started on the updated store arms nothing.\<close>

lemma disabled_job_unarmed_after_restart:
  assumes "same_number ''1'' 1"
  shows "(case deleteJobHandler same_number (post [(''job_id'', ''1'')]) ping_world of
            (resp, w1) \<Rightarrow> map_option armed (main_start plain_parse sample_time w1) = Some [])"
  using assms
  by (simp add: deleteJobHandler_def disable_job_def post_def FormValue_def Get_def ping_world_def
        ping_db_def main_start_def scheduleJobsFromTable_def active_jobs_def armed_def
        logSchedulerStart_def New_def Start_def Let_def)

subsection \<open>C4: a malformed cron expression is stored and the caller is told nothing\<close>

text \<open>
  C4 does not hold of the code. A POST with the expression \<^verbatim>\<open>61 * * * *\<close> (minute out of
  range) and a new name is answered with the redirect that a successful registration
  gets; the row is in the \<open>jobs\<close> table, marked active; the only trace of the error is a
  line on the terminal. What does hold: the job is not armed.
\<close>

theorem malformed_cron_is_persisted:
  "plain_parse ''61 * * * *'' = Some ''field value out of range'' \<and>
   (case submitJobHandler plain_parse sample_time (post bad_cron_form) fresh_world of
      (resp, w') \<Rightarrow>
        resp = Redirect ''/'' 303 \<and> \<not> rejected resp \<and>
        map_option (\<lambda>d. map (\<lambda>j. (job_name j, job_schedule j, job_status j)) (jobs d)) (db w')
          = Some [(''bad'', ''61 * * * *'', True)] \<and>
        armed w' = [] \<and>
        stdout w' = ''Error scheduling new job: field value out of range'' @ NL)"
  by code_simp

text \<open>
  The same for every parser: whenever the expression is refused and the name is new, the
  row is inserted, the answer is the redirect and no cron instance is started.
\<close>

lemma submit_refused_expression:
  assumes "req_method r = ''POST''" and "FormValue r ''cron_expr'' \<noteq> []"
      and "FormValue r ''command'' \<noteq> []" and "FormValue r ''job_name'' \<noteq> []"
      and "FormValue r ''job_description'' \<noteq> []" and "db w = Some d"
      and "\<not> job_name_exists (FormValue r ''job_name'') d"
      and "parse (FormValue r ''cron_expr'') = Some e"
  shows "fst (submitJobHandler parse now r w) = Redirect ''/'' 303 \<and>
         schedulers (snd (submitJobHandler parse now r w)) = schedulers w \<and>
         (\<exists>d'. db (snd (submitJobHandler parse now r w)) = Some d' \<and>
               length (jobs d') = Suc (length (jobs d)))"
  using assms
  by (simp add: submitJobHandler_def Let_def insert_job_def job_name_exists_def AddFunc_def)

subsection \<open>C5: the summary is ordered by the text of the timestamp\<close>

text \<open>
  C5 does not hold of the code. Timestamps are stored as \<^verbatim>\<open>DD-MM-YYYY hh:mm:ss\<close> text and
  the query takes \<^verbatim>\<open>MAX\<close> and orders over that text. With one run on 31 January and a later
  one on 1 February: for two commands, the older run's command comes first; for one
  command run twice, \<open>LastRun\<close> (and with it the uid and the output shown) is the older
  run's. The counts are right: one success, one failure.
\<close>

theorem last_run_is_not_chronological:
  "Before sample_time next_day \<and>
   (case db two_commands of
      None \<Rightarrow> False
    | Some d \<Rightarrow>
        map (\<lambda>r. (task_command r, task_timestamp r)) (tasks d)
          = [(''echo a'', ''31-01-2024 10:00:00''), (''echo b'', ''01-02-2024 10:00:00'')] \<and>
        map (\<lambda>v. (Command' v, LastRun v)) (summarize d)
          = [(''echo a'', ''31-01-2024 10:00:00''), (''echo b'', ''01-02-2024 10:00:00'')]) \<and>
   (case db one_command_twice of
      None \<Rightarrow> False
    | Some d \<Rightarrow>
        map (\<lambda>r. (task_command r, task_timestamp r, task_status r, task_output r)) (tasks d)
          = [(''run.sh'', ''31-01-2024 10:00:00'', ''Success'', ''first''),
             (''run.sh'', ''01-02-2024 10:00:00'', ''Failure'', ''second'')] \<and>
        map (\<lambda>v. (Command' v, LastRun v, SuccessCount v, FailureCount v, Output' v)) (summarize d)
          = [(''run.sh'', ''31-01-2024 10:00:00'', 1, 1, ''first'')])"
  by (simp add: two_commands_db one_command_twice_db query_defs Before_def sample_time_def
        next_day_def)

text \<open>
  What does hold of the query for every store: one entry per distinct command, each with
  the right counts, \<open>LastRun\<close> the greatest timestamp of its group as a string, and the
  entries in descending order of that string.
\<close>

lemma group_by_command_snoc:
  "group_by_command (rows @ [row]) = group_step row (group_by_command rows)"
  by (simp add: group_by_command_def)

lemma Command_add_row: "Command' (add_row row v) = Command' v"
  by (simp add: add_row_def Let_def)

lemma commands_group_step:
  "map Command' (group_step row vs) =
     (if task_command row \<in> set (map Command' vs) then map Command' vs
      else map Command' vs @ [task_command row])"
  by (induction vs) (auto simp: Command_add_row new_group_def)

lemma distinct_group_by_command: "distinct (map Command' (group_by_command rows))"
proof (induction rows rule: rev_induct)
  case Nil
  then show ?case by (simp add: group_by_command_def)
next
  case (snoc row rows)
  then show ?case by (simp add: group_by_command_snoc commands_group_step)
qed

lemma set_group_by_command:
  "set (map Command' (group_by_command rows)) = set (map task_command rows)"
proof (induction rows rule: rev_induct)
  case Nil
  then show ?case by (simp add: group_by_command_def)
next
  case (snoc row rows)
  then show ?case by (auto simp: group_by_command_snoc commands_group_step)
qed

lemma group_ok_new:
  assumes "task_command row \<notin> set (map task_command rows)"
  shows "group_ok (rows @ [row]) (new_group row)"
proof -
  from assms have "filter (\<lambda>r. task_command r = task_command row) rows = []"
    by (induction rows) auto
  then show ?thesis
    by (simp add: group_ok_def new_group_def Let_def)
qed

lemma group_ok_add:
  assumes "group_ok rows v" and "Command' v = task_command row"
  shows "group_ok (rows @ [row]) (add_row row v)"
  using assms by (auto simp: group_ok_def add_row_def Let_def)

lemma group_ok_other:
  assumes "group_ok rows v" and "Command' v \<noteq> task_command row"
  shows "group_ok (rows @ [row]) v"
  using assms by (simp add: group_ok_def Let_def)

lemma group_step_ok:
  assumes "distinct (map Command' vs)" and "\<forall>v\<in>set vs. group_ok rows v"
      and "task_command row \<notin> set (map Command' vs) \<Longrightarrow>
           task_command row \<notin> set (map task_command rows)"
  shows "\<forall>v\<in>set (group_step row vs). group_ok (rows @ [row]) v"
  using assms
proof (induction vs)
  case Nil
  then show ?case by (simp add: group_ok_new)
next
  case (Cons v vs)
  show ?case
  proof (cases "Command' v = task_command row")
    case True
    have "group_ok (rows @ [row]) (add_row row v)"
      using Cons.prems(2) True by (simp add: group_ok_add)
    moreover have "\<forall>u\<in>set vs. group_ok (rows @ [row]) u"
    proof
      fix u assume u: "u \<in> set vs"
      with Cons.prems(1) True have "Command' u \<noteq> task_command row" by force
      with Cons.prems(2) u show "group_ok (rows @ [row]) u" by (simp add: group_ok_other)
    qed
    ultimately show ?thesis using True by simp
  next
    case False
    have v: "group_ok (rows @ [row]) v"
      using Cons.prems(2) False by (simp add: group_ok_other)
    have "\<forall>u\<in>set (group_step row vs). group_ok (rows @ [row]) u"
    proof (rule Cons.IH)
      show "distinct (map Command' vs)" using Cons.prems(1) by simp
      show "\<forall>v\<in>set vs. group_ok rows v" using Cons.prems(2) by simp
      show "task_command row \<notin> set (map task_command rows)"
        if "task_command row \<notin> set (map Command' vs)"
        using that False Cons.prems(3) by auto
    qed
    with v False show ?thesis by simp
  qed
qed

lemma group_by_command_ok: "\<forall>v\<in>set (group_by_command rows). group_ok rows v"
proof (induction rows rule: rev_induct)
  case Nil
  then show ?case by (simp add: group_by_command_def)
next
  case (snoc row rows)
  show ?case
    unfolding group_by_command_snoc
  proof (rule group_step_ok [OF distinct_group_by_command snoc.IH])
    assume "task_command row \<notin> set (map Command' (group_by_command rows))"
    then show "task_command row \<notin> set (map task_command rows)"
      unfolding set_group_by_command .
  qed
qed

lemma set_insert_desc: "set (insert_desc v vs) = insert v (set vs)"
  by (induction vs) auto

lemma set_order_by: "set (order_by_last_run_desc vs) = set vs"
  by (induction vs) (simp_all add: order_by_last_run_desc_def set_insert_desc)

lemma distinct_insert_desc:
  "distinct (map f (insert_desc v vs)) = (f v \<notin> f ` set vs \<and> distinct (map f vs))"
  by (induction vs) (auto simp: set_insert_desc)

lemma distinct_order_by: "distinct (map f (order_by_last_run_desc vs)) = distinct (map f vs)"
  by (induction vs) (simp_all add: order_by_last_run_desc_def distinct_insert_desc set_insert_desc,
      simp add: set_order_by [unfolded order_by_last_run_desc_def])

lemma comes_before_LastRun: "comes_before v u \<Longrightarrow> LastRun u \<le> LastRun v"
  by (auto simp: comes_before_def)

lemma not_comes_before_LastRun: "\<not> comes_before v u \<Longrightarrow> LastRun v \<le> LastRun u"
  by (auto simp: comes_before_def)

lemma sorted_insert_desc:
  "sorted_wrt (\<lambda>a b. LastRun b \<le> LastRun a) vs \<Longrightarrow>
   sorted_wrt (\<lambda>a b. LastRun b \<le> LastRun a) (insert_desc v vs)"
proof (induction vs)
  case Nil
  then show ?case by simp
next
  case (Cons u us)
  show ?case
  proof (cases "comes_before v u")
    case True
    then have "LastRun u \<le> LastRun v" by (rule comes_before_LastRun)
    moreover have "\<forall>x\<in>set us. LastRun x \<le> LastRun u" using Cons.prems by simp
    ultimately have "\<forall>x\<in>set (u # us). LastRun x \<le> LastRun v" by auto
    with True Cons.prems show ?thesis by simp
  next
    case False
    then have "LastRun v \<le> LastRun u" by (rule not_comes_before_LastRun)
    with False Cons show ?thesis by (auto simp: set_insert_desc)
  qed
qed

lemma sorted_order_by: "sorted_wrt (\<lambda>a b. LastRun b \<le> LastRun a) (order_by_last_run_desc vs)"
  by (induction vs) (simp_all add: order_by_last_run_desc_def sorted_insert_desc)

lemma summarize_groups:
  "distinct (map Command' (summarize d)) \<and>
   set (map Command' (summarize d)) = set (map task_command (tasks d)) \<and>
   sorted_wrt (\<lambda>a b. LastRun b \<le> LastRun a) (summarize d) \<and>
   (\<forall>v\<in>set (summarize d). group_ok (tasks d) v)"
  by (simp add: summarize_def distinct_order_by distinct_group_by_command set_order_by
        sorted_order_by group_by_command_ok set_group_by_command [simplified])

text \<open>Groups with the same \<open>LastRun\<close> come in descending order of the command.\<close>

lemma ties_in_descending_command_order:
  "map (\<lambda>v. (Command' v, SuccessCount v, FailureCount v)) (summarize tied_db)
     = [(''c'', 1, 0), (''b'', 0, 1), (''a'', 1, 0)]"
  by (simp add: tied_db_def query_defs)

subsection \<open>C6: what was recorded is what is fetched\<close>

text \<open>
  C6. Let the insert of a record succeed, its uid being one that \<^verbatim>\<open>uuid.New().String()\<close>
  printed. Then, after any number of later runs of \<^verbatim>\<open>job\<close>, the query for that uid finds
  a row with the command, the status and the output of the record, and
  \<^verbatim>\<open>downloadLogHandler\<close> answers with the download made of that row.
\<close>

theorem record_then_fetch:
  assumes "db w = Some d" and "insert_task jobStatus d = Inr (i, d')"
      and "UID jobStatus = uuid_String u"
      and "Get (req_query r) ''task_uid'' = UID jobStatus"
  shows "\<exists>d2 row.
           db (foldl (\<lambda>w e. job (fst e) (snd e) w) (logJobStatusToDB jobStatus w) later) = Some d2 \<and>
           query_task (UID jobStatus) d2 = Inr row \<and>
           task_command row = Command jobStatus \<and> task_status row = Status jobStatus \<and>
           task_output row = Output jobStatus \<and>
           downloadLogHandler r
               (foldl (\<lambda>w e. job (fst e) (snd e) w) (logJobStatusToDB jobStatus w) later)
             = Download (UID jobStatus @ ''.log'') (logContent row)"
proof -
  let ?row = "\<lparr>task_id = i, task_uid = UID jobStatus, task_command = Command jobStatus,
               task_timestamp = Timestamp jobStatus, task_status = Status jobStatus,
               task_output = Output jobStatus\<rparr>"
  let ?w1 = "logJobStatusToDB jobStatus w"
  let ?w2 = "foldl (\<lambda>w e. job (fst e) (snd e) w) ?w1 later"
  from insert_task_tasks [OF assms(2)]
  have fresh: "UID jobStatus \<notin> set (map task_uid (tasks d))" and t': "tasks d' = tasks d @ [?row]"
    by simp_all
  have w1: "db ?w1 = Some d'"
    using assms(1,2) by (simp add: logJobStatusToDB_def)
  have found: "find (\<lambda>row. task_uid row = UID jobStatus) (tasks d') = Some ?row"
    unfolding t' using fresh by (intro find_snoc_new) force+
  from jobs_extend [OF w1, of later] obtain d2 extra
    where d2: "db ?w2 = Some d2" "tasks d2 = tasks d' @ extra" by blast
  have q: "query_task (UID jobStatus) d2 = Inr ?row"
    by (rule query_task_found [OF found d2(2)])
  have ne: "UID jobStatus \<noteq> []"
    using assms(3) by (simp add: uuid_String_nonempty)
  have "downloadLogHandler r ?w2 = Download (UID jobStatus @ ''.log'') (logContent ?row)"
    using assms(4) ne d2(1) q by (simp add: downloadLogHandler_def Let_def)
  with d2(1) q show ?thesis by auto
qed

theorem record_then_fetch_witness:
  "\<exists>d2 row.
     db (foldl (\<lambda>w e. job (fst e) (snd e) w) (logJobStatusToDB sample_status fresh_world)
           [(fail_env, ''exit 1'')]) = Some d2 \<and>
     query_task ''3f2a910c-5d44-4e1b-8a07-c2196eb055d3'' d2 = Inr row \<and>
     task_command row = ''echo ok'' \<and> task_status row = ''Success'' \<and> task_output row = ''ok'' @ NL \<and>
     downloadLogHandler (download_request ''3f2a910c-5d44-4e1b-8a07-c2196eb055d3'')
         (foldl (\<lambda>w e. job (fst e) (snd e) w) (logJobStatusToDB sample_status fresh_world)
            [(fail_env, ''exit 1'')])
       = Download ''3f2a910c-5d44-4e1b-8a07-c2196eb055d3.log'' (logContent row)"
proof -
  have h1: "db fresh_world = Some empty_db"
    by (simp add: fresh_world_def)
  have h2: "insert_task sample_status empty_db =
              Inr (1, empty_db\<lparr>tasks := tasks empty_db @
                        [\<lparr>task_id = 1, task_uid = UID sample_status,
                          task_command = Command sample_status,
                          task_timestamp = Timestamp sample_status,
                          task_status = Status sample_status,
                          task_output = Output sample_status\<rparr>], tasks_seq := 1\<rparr>)"
    by (simp add: insert_task_def empty_db_def Let_def)
  have h3: "UID sample_status = uuid_String sample_uuid"
    by (simp add: sample_status_def)
  have h4: "Get (req_query (download_request (UID sample_status))) ''task_uid'' = UID sample_status"
    by (simp add: download_request_def Get_def)
  show ?thesis
    using record_then_fetch [OF h1 h2 h3 h4, of "[(fail_env, ''exit 1'')]"]
    by (simp add: sample_status_def sample_uuid_String)
qed

subsection \<open>C7: an unknown uid is NotFound, an empty one is a bad request\<close>

text \<open>
  C7 as stated fails on the empty uid: no record carries it, and the handler answers 400
  \<open>Task ID not specified\<close> before it consults the store, not 404.
\<close>

theorem fetch_empty_uid_counterexample:
  "[] \<notin> set (map task_uid (tasks empty_db)) \<and>
   downloadLogHandler (download_request []) fresh_world = HttpError 400 ''Task ID not specified'' \<and>
   downloadLogHandler (download_request []) fresh_world
     \<noteq> HttpError 404 ''No log entries found for the specified task ID''"
  by code_simp

text \<open>
  C7, amended. With the store open: an empty uid is refused as a bad request; a uid that
  is not empty and that no record carries is answered 404 (not 500); a uid that is not
  empty and that a record carries is answered with the download of a row with that uid.
\<close>

theorem fetch_by_uid:
  assumes "db w = Some d" and "Get (req_query r) ''task_uid'' = uid"
  shows "(uid = [] \<longrightarrow> downloadLogHandler r w = HttpError 400 ''Task ID not specified'') \<and>
         (uid \<noteq> [] \<and> uid \<notin> set (map task_uid (tasks d)) \<longrightarrow>
            downloadLogHandler r w = HttpError 404 ''No log entries found for the specified task ID'') \<and>
         (uid \<noteq> [] \<and> uid \<in> set (map task_uid (tasks d)) \<longrightarrow>
            (\<exists>row\<in>set (tasks d). task_uid row = uid \<and>
               downloadLogHandler r w = Download (uid @ ''.log'') (logContent row)))"
proof (intro conjI impI)
  assume "uid = []"
  then show "downloadLogHandler r w = HttpError 400 ''Task ID not specified''"
    using assms by (simp add: downloadLogHandler_def)
next
  assume a: "uid \<noteq> [] \<and> uid \<notin> set (map task_uid (tasks d))"
  then have "find (\<lambda>row. task_uid row = uid) (tasks d) = None"
    by (auto simp: find_None_iff)
  then show "downloadLogHandler r w = HttpError 404 ''No log entries found for the specified task ID''"
    using assms a by (simp add: downloadLogHandler_def query_task_def)
next
  assume a: "uid \<noteq> [] \<and> uid \<in> set (map task_uid (tasks d))"
  then obtain row where row: "find (\<lambda>row. task_uid row = uid) (tasks d) = Some row"
    by (cases "find (\<lambda>row. task_uid row = uid) (tasks d)") (auto simp: find_None_iff)
  then have "row \<in> set (tasks d)" "task_uid row = uid"
    by (auto simp: find_Some_iff)
  moreover have "downloadLogHandler r w = Download (uid @ ''.log'') (logContent row)"
    using assms a row \<open>task_uid row = uid\<close> by (simp add: downloadLogHandler_def query_task_def)
  ultimately show "\<exists>row\<in>set (tasks d). task_uid row = uid \<and>
               downloadLogHandler r w = Download (uid @ ''.log'') (logContent row)"
    by blast
qed

theorem fetch_by_uid_witness:
  "downloadLogHandler (download_request ''no-such-uid'') two_commands
     = HttpError 404 ''No log entries found for the specified task ID'' \<and>
   downloadLogHandler (download_request ''7c1002ee-419a-4b6f-9358-0da42731f86a'') two_commands
     = Download ''7c1002ee-419a-4b6f-9358-0da42731f86a.log''
         (''Task ID: 7c1002ee-419a-4b6f-9358-0da42731f86a'' @ NL @ ''Command: echo b'' @ NL @
          ''Timestamp: 01-02-2024 10:00:00'' @ NL @ ''Status: Success'' @ NL @ NL @
          ''Output:'' @ NL @ ''b'' @ NL) \<and>
   downloadLogHandler (download_request []) two_commands = HttpError 400 ''Task ID not specified''"
proof -
  have g: "\<And>uid. Get (req_query (download_request uid)) ''task_uid'' = uid"
    by (simp add: download_request_def Get_def)
  show ?thesis
    using fetch_by_uid [OF two_commands_db g, of "''no-such-uid''"]
          fetch_by_uid [OF two_commands_db g, of "''7c1002ee-419a-4b6f-9358-0da42731f86a''"]
          fetch_by_uid [OF two_commands_db g, of "[]"]
    by (simp add: logContent_def)
qed

subsection \<open>C8: a bad line of the batch file is skipped, a line too long for the scanner ends the loading\<close>






subsection \<open>C9: the lock\<close>

text \<open>
  C9 is about interleavings of goroutines under \<^verbatim>\<open>sync.Mutex\<close>. The embedding runs each of
  \<^verbatim>\<open>logJobStatus\<close> and \<^verbatim>\<open>logJobStatusToDB\<close> as one step from state to state, which is what
  holding \<^verbatim>\<open>mu\<close> for the whole body gives; it has no concurrent executions to state the
  claim about.
\<close>

subsection \<open>C10: a nil sink drops the record silently\<close>

text \<open>
  C10. With a nil log-file handle \<^verbatim>\<open>logJobStatus\<close> returns the state as it was: nothing is
  written, nothing is printed. With a nil database handle \<^verbatim>\<open>logJobStatusToDB\<close> does the
  same. The record is dropped from that sink and no error is reported.
\<close>

theorem nil_sinks_drop_silently:
  "(logFile w = None \<longrightarrow> logJobStatus jobStatus w = w) \<and>
   (db w = None \<longrightarrow> logJobStatusToDB jobStatus w = w)"
  by (simp add: logJobStatus_def logJobStatusToDB_def)

theorem nil_sinks_drop_silently_witness:
  "logFile nil_world = None \<and> db nil_world = None \<and>
   logJobStatus sample_status nil_world = nil_world \<and>
   logJobStatusToDB sample_status nil_world = nil_world"
  using nil_sinks_drop_silently [of nil_world sample_status]
  by (simp add: nil_world_def)

end
